theory Spec2Isabelle
  imports Complex_Main
begin

section \<open>Python strings and POSIX paths\<close>

text \<open>
  Python \<open>str\<close> values are modelled as \<open>string\<close>. The path functions are those of
  \<open>posixpath\<close>: the separator is \<open>/\<close>, and the source itself builds paths with it
  (\<open>"{0}/{1}".format(save_dir, fname)\<close>). Output printed to the console is not part of
  any result and is left out of the model.
\<close>

definition startswith :: "string \<Rightarrow> string \<Rightarrow> bool" where
  "startswith s p = (take (length p) s = p)"

definition endswith :: "string \<Rightarrow> string \<Rightarrow> bool" where
  "endswith s p = startswith (rev s) (rev p)"

definition lstrip :: "char \<Rightarrow> string \<Rightarrow> string" where
  "lstrip c s = dropWhile (\<lambda>x. x = c) s"

definition rstrip :: "char \<Rightarrow> string \<Rightarrow> string" where
  "rstrip c s = rev (dropWhile (\<lambda>x. x = c) (rev s))"

text \<open>\<open>sep.join(parts)\<close>\<close>

fun join :: "string \<Rightarrow> string list \<Rightarrow> string" where
  "join sep [] = []"
| "join sep [x] = x"
| "join sep (x # y # ys) = x @ sep @ join sep (y # ys)"

text \<open>\<open>os.path.join(a, b)\<close> for two components.\<close>

definition path_join :: "string \<Rightarrow> string \<Rightarrow> string" where
  "path_join a b =
     (if startswith b ''/'' then b
      else if a = [] \<or> endswith a ''/'' then a @ b
      else a @ ''/'' @ b)"

text \<open>
  \<open>os.path.basename(p)\<close> is \<open>p[i:]\<close> and \<open>os.path.dirname(p)\<close> is \<open>p[:i]\<close> with
  \<open>i = p.rfind('/') + 1\<close>; \<open>dirname\<close> strips the trailing separators of a head that
  is not made of separators only.
\<close>

definition basename :: "string \<Rightarrow> string" where
  "basename p = rev (takeWhile (\<lambda>c. c \<noteq> CHR ''/'') (rev p))"

definition dirname :: "string \<Rightarrow> string" where
  "dirname p =
     (let head = rev (dropWhile (\<lambda>c. c \<noteq> CHR ''/'') (rev p))
      in if head \<noteq> [] \<and> \<not> list_all (\<lambda>c. c = CHR ''/'') head
         then rstrip (CHR ''/'') head else head)"

text \<open>\<open>s.rfind(c)\<close> for a single character: the last index of \<open>c\<close>, or \<open>-1\<close>.\<close>

definition rfind :: "string \<Rightarrow> char \<Rightarrow> int" where
  "rfind s c =
     (if c \<in> set s then int (length s) - 1 - int (length (takeWhile (\<lambda>x. x \<noteq> c) (rev s)))
      else - 1)"

text \<open>
  \<open>os.path.splitext(p)\<close> (\<open>genericpath._splitext\<close>): the extension starts at the last
  dot of the last component, unless only dots precede it there.
\<close>

definition splitext :: "string \<Rightarrow> string \<times> string" where
  "splitext p =
     (let sepIndex = rfind p (CHR ''/'');
          dotIndex = rfind p (CHR ''.'')
      in if dotIndex > sepIndex \<and>
            list_ex (\<lambda>c. c \<noteq> CHR ''.'')
              (take (nat (dotIndex - (sepIndex + 1))) (drop (nat (sepIndex + 1)) p))
         then (take (nat dotIndex) p, drop (nat dotIndex) p)
         else (p, []))"

definition getFileBaseName :: "string \<Rightarrow> bool \<Rightarrow> string" where
  "getFileBaseName filePath extension =
     (let baseName = basename filePath
      in if extension then baseName else fst (splitext baseName))"


section \<open>File system\<close>

text \<open>
  A file system maps a path to a directory or to a file with its content. Paths are
  compared as written, up to trailing separators; \<open>.\<close>, \<open>..\<close> and links are not
  resolved. A path with an empty directory part lies in the current working directory,
  which exists.
\<close>

datatype node = Dir | File string

type_synonym fs = "string \<rightharpoonup> node"

datatype error = FileNotFoundError | FileExistsError | NotADirectoryError
  | IsADirectoryError | ZeroDivisionError | ValueError | ConnectionError

text \<open>A path without its trailing separators; a path of separators only is the root.\<close>

definition strip_sep :: "string \<Rightarrow> string" where
  "strip_sep p = (if list_all (\<lambda>c. c = CHR ''/'') p then take 1 p else rstrip (CHR ''/'') p)"


text \<open>
  What the operating system answers for a path: nothing for the empty path, and nothing
  for a regular file named with a trailing separator.
\<close>

definition lookup :: "fs \<Rightarrow> string \<Rightarrow> node option" where
  "lookup fs p =
     (if p = [] then None
      else case fs (strip_sep p) of
             Some (File c) \<Rightarrow> if endswith p ''/'' then None else Some (File c)
           | r \<Rightarrow> r)"

definition os_path_exists :: "fs \<Rightarrow> string \<Rightarrow> bool" where
  "os_path_exists fs p = (lookup fs p \<noteq> None)"

definition os_path_isdir :: "fs \<Rightarrow> string \<Rightarrow> bool" where
  "os_path_isdir fs p = (lookup fs p = Some Dir)"


section \<open>Listing files\<close>

text \<open>
  \<open>listFiles\<close>: the extension argument is normalised, the pattern is built, and
  \<open>glob.glob\<close> (a parameter here) is asked for the matches of a directory.
\<close>

definition listFiles_ext :: "string option \<Rightarrow> string" where
  "listFiles_ext ext =
     (case ext of
        None \<Rightarrow> ''*''
      | Some e \<Rightarrow>
          (let e1 = lstrip (CHR ''*'') e
           in if \<not> startswith e1 ''.'' then ''.'' @ e1 else e1))"

definition listFiles_pattern :: "string \<Rightarrow> string option \<Rightarrow> string" where
  "listFiles_pattern path ext = path_join path (''*'' @ listFiles_ext ext)"

definition listFiles :: "(fs \<Rightarrow> string \<Rightarrow> string list) \<Rightarrow> fs \<Rightarrow> string \<Rightarrow> string option \<Rightarrow> string list" where
  "listFiles glob fs path ext =
     (let pattern = listFiles_pattern path ext
      in if \<not> os_path_isdir fs path then [] else glob fs pattern)"

text \<open>An extension stem is the bare extension: it starts with neither \<open>*\<close> nor a dot.\<close>

definition is_stem :: "string \<Rightarrow> bool" where
  "is_stem e = (\<not> startswith e ''*'' \<and> \<not> startswith e ''.'')"


section \<open>Inserting a row\<close>

text \<open>
  \<open>sqliteConnection.insertRow\<close>. A bound value is \<open>None\<close> or a value; a dictionary is
  an association list in insertion order. The result is the list of
  \<open>cursor.execute(sql, values)\<close> calls made.
\<close>

definition insertRow_placeholder :: "'v option list \<Rightarrow> string" where
  "insertRow_placeholder ordered_content_list =
     join '','' (map (\<lambda>value. if value = None then ''?'' else ''?'') ordered_content_list)"

definition insertRow_values :: "'v option list \<Rightarrow> 'v option list" where
  "insertRow_values ordered_content_list =
     map (\<lambda>value. if value = None then None else value) ordered_content_list"

definition insertRow :: "string \<Rightarrow> 'v option list \<Rightarrow> (string \<times> 'v option) list
    \<Rightarrow> (string \<times> 'v option list) list" where
  "insertRow table_name ordered_content_list dictionary_obj =
     (if length ordered_content_list > 0 then
        [(''INSERT INTO '' @ table_name @ '' VALUES(''
            @ insertRow_placeholder ordered_content_list @ '')'',
          insertRow_values ordered_content_list)]
      else if length dictionary_obj > 0 then
        (let question_marks = join '','' (map (\<lambda>c. [c]) (replicate (length dictionary_obj) (CHR ''?'')));
             keys = join '','' (map fst dictionary_obj);
             values = map snd dictionary_obj
         in [(''INSERT INTO '' @ table_name @ '' ('' @ keys @ '') VALUES (''
                @ question_marks @ '')'', values)])
      else [])"

text \<open>
  Binding the raw list directly: one \<open>?\<close> per entry, and the list itself as the bound
  values.
\<close>

definition bind_raw :: "string \<Rightarrow> 'v option list \<Rightarrow> string \<times> 'v option list" where
  "bind_raw table_name xs =
     (''INSERT INTO '' @ table_name @ '' VALUES(''
        @ join '','' (replicate (length xs) ''?'') @ '')'', xs)"


text \<open>
  \<open>s.replace(old, new)\<close>: the occurrences of \<open>old\<close> are found from the left and do not
  overlap; an empty \<open>old\<close> matches before every character and at the end.
\<close>

function replace :: "string \<Rightarrow> string \<Rightarrow> string \<Rightarrow> string" where
  "replace [] old new = (if old = [] then new else [])"
| "replace (c # cs) old new =
     (if old = [] then new @ c # replace cs old new
      else if startswith (c # cs) old
        then new @ replace (drop (length old - 1) cs) old new
      else c # replace cs old new)"
  by pat_completeness auto
termination
  by (relation "measure (\<lambda>(s, old, new). length s)") auto

text \<open>\<open>pat in s\<close> for strings.\<close>

fun occurs :: "string \<Rightarrow> string \<Rightarrow> bool" where
  "occurs pat [] = (pat = [])"
| "occurs pat (c # cs) = (startswith (c # cs) pat \<or> occurs pat cs)"

text \<open>\<open>str(n)\<close> for an integer.\<close>

fun str_nat :: "nat \<Rightarrow> string" where
  "str_nat n =
     (if n < 10 then [''0123456789'' ! n]
      else str_nat (n div 10) @ [''0123456789'' ! (n mod 10)])"

declare str_nat.simps [simp del]

definition str_int :: "int \<Rightarrow> string" where
  "str_int i = (if i < 0 then ''-'' @ str_nat (nat (- i)) else str_nat (nat i))"


section \<open>File system operations\<close>

text \<open>The proper ancestors of a path: its prefixes that end before a separator.\<close>

definition dir_prefixes :: "string \<Rightarrow> string list" where
  "dir_prefixes p =
     map (\<lambda>i. take i p)
       (filter (\<lambda>i. p ! i = CHR ''/'' \<and> p ! (i - 1) \<noteq> CHR ''/'') [1..<length p])"

definition is_file :: "fs \<Rightarrow> string \<Rightarrow> bool" where
  "is_file fs p = (case fs p of Some (File c) \<Rightarrow> True | _ \<Rightarrow> False)"

text \<open>
  \<open>os.makedirs(name)\<close>: creates the directory and its missing ancestors; raises when the
  name is empty, when the directory exists, or when an ancestor is a regular file.
\<close>

definition makedirs :: "fs \<Rightarrow> string \<Rightarrow> error + fs" where
  "makedirs fs name =
     (if name = [] then Inl FileNotFoundError
      else let p = strip_sep name; anc = dir_prefixes p
           in if list_ex (is_file fs) anc then Inl NotADirectoryError
              else if fs p \<noteq> None then Inl FileExistsError
              else Inr (\<lambda>q. if q \<in> set (p # anc) \<and> fs q = None then Some Dir else fs q))"

text \<open>\<open>os.remove(path)\<close>\<close>

definition os_remove :: "fs \<Rightarrow> string \<Rightarrow> error + fs" where
  "os_remove fs p =
     (case lookup fs p of
        None \<Rightarrow> Inl FileNotFoundError
      | Some Dir \<Rightarrow> Inl IsADirectoryError
      | Some (File c) \<Rightarrow> Inr (fs(p := None)))"

text \<open>\<open>shutil.rmtree(path)\<close>: removes a directory with everything below it.\<close>

definition rmtree :: "fs \<Rightarrow> string \<Rightarrow> error + fs" where
  "rmtree fs p =
     (case lookup fs p of
        None \<Rightarrow> Inl FileNotFoundError
      | Some (File c) \<Rightarrow> Inl NotADirectoryError
      | Some Dir \<Rightarrow> Inr (\<lambda>q. if q = strip_sep p \<or> startswith q (strip_sep p @ ''/'') then None else fs q))"

text \<open>
  \<open>open(filename, 'w')\<close> or \<open>'wb'\<close>: creates or truncates the file; raises when the parent
  directory is missing or the name is that of a directory. When appending (\<open>'ab'\<close>) the
  content of an existing file is kept.
\<close>

definition open_write :: "fs \<Rightarrow> string \<Rightarrow> bool \<Rightarrow> error + fs" where
  "open_write fs filename appending =
     (if filename = [] then Inl FileNotFoundError
      else if endswith filename ''/'' then Inl IsADirectoryError
      else if dirname filename \<noteq> [] \<and> \<not> os_path_isdir fs (dirname filename)
        then Inl FileNotFoundError
      else case fs filename of
             Some Dir \<Rightarrow> Inl IsADirectoryError
           | Some (File c) \<Rightarrow> Inr (if appending then fs else fs(filename \<mapsto> File []))
           | None \<Rightarrow> Inr (fs(filename \<mapsto> File [])))"



section \<open>Deleting\<close>

text \<open>
  \<open>deleteFile\<close> and \<open>deletePath\<close> return the file system after the call and the value
  returned; \<open>None\<close> is Python's \<open>None\<close>, the value of a function body that ends
  without a \<open>return\<close>. The bare \<open>except\<close> catches every error of the removal.
\<close>

definition deleteFile :: "fs \<Rightarrow> string \<Rightarrow> fs \<times> bool option" where
  "deleteFile fs filePath =
     (let (fs', deleted) =
        (if os_path_exists fs filePath then
           (case os_remove fs filePath of
              Inr fs1 \<Rightarrow> (fs1, True)
            | Inl e \<Rightarrow> (fs, False))
         else (fs, False))
      in (fs', Some deleted))"

definition deletePath :: "fs \<Rightarrow> string \<Rightarrow> fs \<times> bool option" where
  "deletePath fs path =
     (let (fs', deleted) =
        (if os_path_exists fs path then
           (case rmtree fs path of
              Inr fs1 \<Rightarrow> (fs1, True)
            | Inl e \<Rightarrow> (fs, False))
         else (fs, False))
      in (fs', None))"


section \<open>Writing a file\<close>

definition createPath :: "fs \<Rightarrow> string \<Rightarrow> error + fs \<times> string" where
  "createPath fs pathName =
     (if pathName = [] then Inr (fs, ''./'')
      else
        let p1 = (if endswith pathName [CHR 0x5C] then butlast pathName else pathName);
            p2 = (if \<not> endswith p1 ''/'' then p1 @ ''/'' else p1);
            res = (if \<not> os_path_isdir fs p2 then makedirs fs p2 else Inr fs)
        in case res of
             Inl e \<Rightarrow> Inl e
           | Inr fs' \<Rightarrow> Inr (fs', if endswith p2 ''/'' then butlast p2 else p2))"

text \<open>
  \<open>writeTo\<close>: a codec is a partial function on lines (\<open>None\<close> where encoding raises).
  The result is the error raised, or the file system and the value returned.
\<close>

definition writeTo :: "fs \<Rightarrow> string \<Rightarrow> string list \<Rightarrow> (string \<Rightarrow> string option) option
    \<Rightarrow> error + fs \<times> bool" where
  "writeTo fs filename file_text encode_codec =
     (case open_write fs filename False of
        Inl e \<Rightarrow> Inr (fs, False)
      | Inr fs1 \<Rightarrow>
          (case createPath fs1 (dirname filename) of
             Inl e \<Rightarrow> Inl e
           | Inr (fs2, d) \<Rightarrow>
               (case encode_codec of
                  None \<Rightarrow> Inr (fs2(filename \<mapsto> File (concat file_text)), True)
                | Some enc \<Rightarrow>
                    if list_all (\<lambda>line. enc line \<noteq> None) file_text
                    then Inr (fs2(filename \<mapsto> File (concat (map (\<lambda>line. the (enc line)) file_text))), True)
                    else Inl ValueError)))"


section \<open>Exporting a NetCDF variable\<close>

text \<open>
  \<open>netcdfExportTif\<close> builds the string that names the variable and hands it to
  \<open>gdal.Translate\<close>. The result is the error raised, or the file system and the call
  made to the raster engine. An absent or empty \<open>outputFile\<close> and an absent or zero
  \<open>band\<close> are false in the tests of the source.
\<close>

definition dquote :: char where
  "dquote = CHR 0x22"

record translate_call =
  tr_dest :: string
  tr_src :: string
  tr_format :: "string option"
  tr_bandList :: "int list option"

definition netcdf_input_string :: "string \<Rightarrow> string \<Rightarrow> string" where
  "netcdf_input_string ncFile variable =
     ''NETCDF:'' @ [dquote] @ ncFile @ [dquote] @ '':'' @ variable @ [dquote]"

definition netcdfExportTif :: "fs \<Rightarrow> string \<Rightarrow> string \<Rightarrow> string option \<Rightarrow> int option
    \<Rightarrow> error + fs \<times> translate_call" where
  "netcdfExportTif fs ncFile variable outputFile band =
     (let input_string = netcdf_input_string ncFile variable;
          bands = (case band of None \<Rightarrow> None | Some b \<Rightarrow> if b \<noteq> 0 then Some [b] else None)
      in case outputFile of
           Some out \<Rightarrow>
             if out \<noteq> [] then
               (case (if \<not> os_path_exists fs out then
                        (let dirName = dirname out
                         in if \<not> os_path_exists fs dirName then makedirs fs dirName else Inr fs)
                      else Inr fs) of
                  Inl e \<Rightarrow> Inl e
                | Inr fs' \<Rightarrow>
                    Inr (fs', \<lparr>tr_dest = out, tr_src = input_string, tr_format = None,
                               tr_bandList = bands\<rparr>))
             else Inr (fs, \<lparr>tr_dest = [], tr_src = input_string, tr_format = Some ''MEM'',
                            tr_bandList = bands\<rparr>)
         | None \<Rightarrow> Inr (fs, \<lparr>tr_dest = [], tr_src = input_string, tr_format = Some ''MEM'',
                            tr_bandList = bands\<rparr>))"

text \<open>The access string of the NetCDF driver as the specification gives it.\<close>

definition spec_input_string :: "string \<Rightarrow> string \<Rightarrow> string" where
  "spec_input_string f v = ''NETCDF:'' @ [dquote] @ f @ [dquote] @ '':'' @ v"


section \<open>Building a grid\<close>

text \<open>
  A feature collection carries its coordinate system and its geometry. Reading the
  boundary, reprojecting a geometry and laying out the cells over the bounds are the
  work of \<open>geopandas\<close>, \<open>numpy\<close> and \<open>shapely\<close> and are parameters here. The result
  of \<open>createGrid\<close> is the list of files it writes, in order.
\<close>

record 'g gdf =
  crs :: string
  geometry :: 'g

definition to_crs :: "(string \<Rightarrow> string \<Rightarrow> 'g \<Rightarrow> 'g) \<Rightarrow> string \<Rightarrow> 'g gdf \<Rightarrow> 'g gdf" where
  "to_crs reproject epsg g = \<lparr>crs = epsg, geometry = reproject (crs g) epsg (geometry g)\<rparr>"

definition createGrid :: "(string \<Rightarrow> string \<Rightarrow> 'g \<Rightarrow> 'g) \<Rightarrow> ('g \<Rightarrow> 'r \<Rightarrow> 'g) \<Rightarrow> 'g gdf \<Rightarrow> 'r \<Rightarrow> bool
    \<Rightarrow> (string \<times> 'g gdf) list" where
  "createGrid reproject cells shapefile resolution useDegree =
     (let gdf = (if useDegree then to_crs reproject ''EPSG:4326'' shapefile else shapefile);
          grid_gdf = \<lparr>crs = crs gdf, geometry = cells (geometry gdf) resolution\<rparr>;
          reprojectedGrid = to_crs reproject ''EPSG:4326'' grid_gdf
      in [(''generatedGrid4326.gpkg'', grid_gdf), (''generatedGrid.gpkg'', reprojectedGrid)])"

text \<open>The grid in its working coordinate system, as \<open>createGrid\<close> builds it.\<close>

definition working_grid :: "(string \<Rightarrow> string \<Rightarrow> 'g \<Rightarrow> 'g) \<Rightarrow> ('g \<Rightarrow> 'r \<Rightarrow> 'g) \<Rightarrow> 'g gdf \<Rightarrow> 'r \<Rightarrow> bool
    \<Rightarrow> 'g gdf" where
  "working_grid reproject cells shapefile resolution useDegree =
     (let gdf = (if useDegree then to_crs reproject ''EPSG:4326'' shapefile else shapefile)
      in \<lparr>crs = crs gdf, geometry = cells (geometry gdf) resolution\<rparr>)"


section \<open>Reading MP3 metadata\<close>

text \<open>
  Loading the file fails, or gives tags, which may be absent (\<open>audio.tags\<close> is \<open>None\<close>
  for a file without an ID3 header, and the first membership test then raises). A frame
  has its text \<open>str(frame)\<close> and, for a picture, its data. Any exception inside the
  \<open>try\<close> resets every field to its default.
\<close>

datatype frame = Frame (frame_str: string) (frame_data: string)

datatype mp3 = LoadFails | Audio "(string \<times> frame) list option"

record metadata =
  artist :: string
  album :: string
  title :: string
  track_number :: string
  year :: string
  genre :: string

definition default_metadata :: "string \<Rightarrow> metadata" where
  "default_metadata fn =
     \<lparr>artist = ''Unknown Artist'', album = ''Unknown Album'',
      title = replace (basename fn) ''.mp3'' [],
      track_number = ''0'', year = ''Unknown Year'', genre = ''Unknown Genre''\<rparr>"

definition tag_or :: "(string \<times> frame) list \<Rightarrow> string \<Rightarrow> string \<Rightarrow> string" where
  "tag_or tags key dflt = (case map_of tags key of Some f \<Rightarrow> frame_str f | None \<Rightarrow> dflt)"

definition getMp3Metadata :: "fs \<Rightarrow> mp3 \<Rightarrow> string \<Rightarrow> string option \<Rightarrow> fs \<times> metadata" where
  "getMp3Metadata fs audio fn imagePath =
     (case audio of
        LoadFails \<Rightarrow> (fs, default_metadata fn)
      | Audio None \<Rightarrow> (fs, default_metadata fn)
      | Audio (Some tags) \<Rightarrow>
          (let md = \<lparr>artist = tag_or tags ''TPE1'' ''Unknown Artist'',
                     album = tag_or tags ''TALB'' ''Unknown Album'',
                     title = tag_or tags ''TIT2'' (replace (basename fn) ''.mp3'' []),
                     track_number = tag_or tags ''TRCK'' ''0'',
                     year = tag_or tags ''TDRC'' ''Unknown Year'',
                     genre = tag_or tags ''TCON'' ''Unknown Genre''\<rparr>
           in case imagePath of
                None \<Rightarrow> (fs, md)
              | Some ip \<Rightarrow>
                  (case find (\<lambda>(tagKey, f). startswith tagKey ''APIC:'') tags of
                     None \<Rightarrow> (fs, md)
                   | Some (tagKey, f) \<Rightarrow>
                       (case open_write fs ip False of
                          Inl e \<Rightarrow> (fs, default_metadata fn)
                        | Inr fs1 \<Rightarrow> (fs1(ip \<mapsto> File (frame_data f)), md)))))"


section \<open>Downloading a file\<close>




definition chunk_size :: "int \<Rightarrow> int \<Rightarrow> nat \<Rightarrow> int" where
  "chunk_size file_size initial_pos num_connections =
     \<lceil>real_of_int (file_size - initial_pos) / real num_connections\<rceil>"

definition chunks :: "int \<Rightarrow> int \<Rightarrow> nat \<Rightarrow> (int \<times> int) list" where
  "chunks file_size initial_pos num_connections =
     map (\<lambda>i. let start = initial_pos + int i * chunk_size file_size initial_pos num_connections;
                  end' = min (start + chunk_size file_size initial_pos num_connections - 1)
                             (file_size - 1)
              in (start, end'))
         [0..<num_connections]"

definition range_header :: "int \<Rightarrow> int \<Rightarrow> string" where
  "range_header start end' = ''bytes='' @ str_int start @ ''-'' @ str_int end'"









section \<open>Results about listing files\<close>

lemma lstrip_star_Cons: "lstrip (CHR ''*'') (CHR ''*'' # e) = lstrip (CHR ''*'') e"
  by (simp add: lstrip_def)

lemma lstrip_not_star: "\<not> startswith e ''*'' \<Longrightarrow> lstrip (CHR ''*'') e = e"
  by (cases e) (auto simp: lstrip_def startswith_def)

lemma listFiles_ext_dot: "listFiles_ext (Some (''.'' @ e)) = ''.'' @ e"
  by (simp add: listFiles_ext_def lstrip_def startswith_def)

lemma listFiles_ext_star: "listFiles_ext (Some (''*'' @ e)) = listFiles_ext (Some e)"
  by (simp add: listFiles_ext_def lstrip_star_Cons)

lemma listFiles_ext_stem: "is_stem e \<Longrightarrow> listFiles_ext (Some e) = ''.'' @ e"
  by (simp add: listFiles_ext_def is_stem_def lstrip_not_star)

text \<open>
  The stem condition is also necessary: the spelling \<open>e\<close> agrees with the spelling
  \<open>.e\<close> only for a stem.
\<close>

lemma listFiles_ext_stem_iff:
  "listFiles_ext (Some e) = listFiles_ext (Some (''.'' @ e)) \<longleftrightarrow> is_stem e"
proof
  assume eq: "listFiles_ext (Some e) = listFiles_ext (Some (''.'' @ e))"
  have len: "length (lstrip (CHR ''*'') e) \<le> length e"
    by (simp add: lstrip_def length_dropWhile_le)
  show "is_stem e"
  proof (cases "startswith (lstrip (CHR ''*'') e) ''.''")
    case True
    with eq have "lstrip (CHR ''*'') e = ''.'' @ e"
      by (simp add: listFiles_ext_def lstrip_star_Cons Let_def del: One_nat_def)
         (simp add: listFiles_ext_def lstrip_def startswith_def)
    with len show ?thesis by simp
  next
    case False
    with eq have *: "lstrip (CHR ''*'') e = e"
      by (simp add: listFiles_ext_def Let_def)
         (simp add: lstrip_def startswith_def)
    have "\<not> startswith e ''*''"
    proof
      assume "startswith e ''*''"
      then obtain r where "e = CHR ''*'' # r"
        by (cases e) (auto simp: startswith_def)
      with * have "lstrip (CHR ''*'') r = CHR ''*'' # r"
        by (simp add: lstrip_star_Cons)
      moreover have "length (lstrip (CHR ''*'') r) \<le> length r"
        by (simp add: lstrip_def length_dropWhile_le)
      ultimately show False by simp
    qed
    with False * show ?thesis by (simp add: is_stem_def)
  qed
next
  assume "is_stem e"
  then show "listFiles_ext (Some e) = listFiles_ext (Some (''.'' @ e))"
    using listFiles_ext_dot [of e] by (simp add: listFiles_ext_stem)
qed

text \<open>
  Claim C7. For every path and every extension stem \<open>e\<close>, the spellings \<open>e\<close>, \<open>.e\<close>,
  \<open>*e\<close> and \<open>*.e\<close> of the extension give \<open>listFiles\<close> the same glob pattern, which is
  \<open>*.e\<close> joined to the path, and so the same result; for a path that is not a
  directory the result is the empty list.
\<close>

theorem listFiles_extension_spellings:
  assumes "is_stem e"
  shows "listFiles_pattern path (Some e) = path_join path (''*.'' @ e)
       \<and> listFiles_pattern path (Some (''.'' @ e)) = listFiles_pattern path (Some e)
       \<and> listFiles_pattern path (Some (''*'' @ e)) = listFiles_pattern path (Some e)
       \<and> listFiles_pattern path (Some (''*.'' @ e)) = listFiles_pattern path (Some e)
       \<and> listFiles glob fs path (Some (''.'' @ e)) = listFiles glob fs path (Some e)
       \<and> listFiles glob fs path (Some (''*'' @ e)) = listFiles glob fs path (Some e)
       \<and> listFiles glob fs path (Some (''*.'' @ e)) = listFiles glob fs path (Some e)
       \<and> (\<not> os_path_isdir fs path \<longrightarrow> listFiles glob fs path ext = [])"
proof -
  have stem: "listFiles_ext (Some e) = ''.'' @ e"
    using assms by (rule listFiles_ext_stem)
  have dot: "listFiles_ext (Some (''.'' @ e)) = listFiles_ext (Some e)"
    using listFiles_ext_dot [of e] stem by simp
  have star: "listFiles_ext (Some (''*'' @ e)) = listFiles_ext (Some e)"
    by (rule listFiles_ext_star)
  have stardot: "listFiles_ext (Some (''*.'' @ e)) = listFiles_ext (Some e)"
    using listFiles_ext_star [of "''.'' @ e"] dot by simp
  show ?thesis
    unfolding listFiles_def listFiles_pattern_def dot star stardot
    by (simp add: stem)
qed

theorem listFiles_extension_spellings_witness:
  "is_stem ''txt''
   \<and> listFiles (\<lambda>fs p. [p]) [''data'' \<mapsto> Dir] ''data'' (Some ''*.txt'') = [''data/*.txt'']
   \<and> listFiles (\<lambda>fs p. [p]) [''data'' \<mapsto> Dir] ''data'' (Some ''txt'') = [''data/*.txt'']
   \<and> \<not> os_path_isdir [''data'' \<mapsto> Dir] ''nodir''
   \<and> listFiles (\<lambda>fs p. [p]) [''data'' \<mapsto> Dir] ''nodir'' (Some ''txt'') = []"
proof -
  have s: "is_stem ''txt''"
    by (simp add: is_stem_def startswith_def)
  have nd: "\<not> os_path_isdir [''data'' \<mapsto> Dir] ''nodir''"
    by (simp add: os_path_isdir_def lookup_def strip_sep_def rstrip_def)
  have d: "os_path_isdir [''data'' \<mapsto> Dir] ''data''"
    by (simp add: os_path_isdir_def lookup_def strip_sep_def rstrip_def)
  have p: "path_join ''data'' ''*.txt'' = ''data/*.txt''"
    by (simp add: path_join_def startswith_def endswith_def)
  note t1 = listFiles_extension_spellings [OF s, of "''data''" "\<lambda>fs p. [p]" "[''data'' \<mapsto> Dir]" "Some ''txt''"]
  note t2 = listFiles_extension_spellings [OF s, of "''nodir''" "\<lambda>fs p. [p]" "[''data'' \<mapsto> Dir]" "Some ''txt''"]
  have a: "listFiles (\<lambda>fs p. [p]) [''data'' \<mapsto> Dir] ''data'' (Some ''txt'') = [''data/*.txt'']"
    using t1 d p by (simp add: listFiles_def)
  have b: "listFiles (\<lambda>fs p. [p]) [''data'' \<mapsto> Dir] ''data'' (Some ''*.txt'') = [''data/*.txt'']"
    using t1 a by simp
  have c: "listFiles (\<lambda>fs p. [p]) [''data'' \<mapsto> Dir] ''nodir'' (Some ''txt'') = []"
    using t2 nd by simp
  show ?thesis using s a b c nd by simp
qed


section \<open>Results about inserting a row\<close>

text \<open>
  Claim C9. The handling of \<open>None\<close> in the positional form of \<open>insertRow\<close> changes
  nothing: the bound values are the list given, the placeholders are one \<open>?\<close> per
  entry, and for a non-empty list the statement executed is the one that binds the raw
  list directly.
\<close>

theorem insertRow_binds_raw_list:
  "insertRow_values ordered = ordered
   \<and> insertRow_placeholder ordered = join '','' (replicate (length ordered) ''?'')
   \<and> (length ordered > 0 \<longrightarrow> insertRow table_name ordered dictionary_obj = [bind_raw table_name ordered])"
proof -
  have v: "insertRow_values ordered = ordered"
    unfolding insertRow_values_def by (induction ordered) auto
  have p: "insertRow_placeholder ordered = join '','' (replicate (length ordered) ''?'')"
    unfolding insertRow_placeholder_def by (simp add: map_replicate_const)
  show ?thesis
    using v p by (simp add: insertRow_def bind_raw_def)
qed

theorem insertRow_binds_raw_list_witness:
  "length [None, Some (7::int)] > 0
   \<and> insertRow ''t'' [None, Some (7::int)] [] = [(''INSERT INTO t VALUES(?,?)'', [None, Some 7])]"
  using insertRow_binds_raw_list [of "[None, Some (7::int)]" "''t''" "[]"]
  by (simp add: bind_raw_def)


section \<open>Results about deleting\<close>

text \<open>Whatever the path, \<open>deletePath\<close> returns \<open>None\<close>: it computes its flag and drops it.\<close>

lemma deletePath_returns_None: "snd (deletePath fs path) = None"
  by (simp add: deletePath_def split: prod.splits)

text \<open>
  Claim C2. \<open>deletePath\<close> is documented to return \<open>True\<close> when the directory was
  deleted. For an existing directory \<open>d\<close> holding one file, the directory and the file
  are removed and the value returned is \<open>None\<close>, not \<open>True\<close>; \<open>deleteFile\<close>, which ends
  with \<open>return deleted\<close>, returns \<open>True\<close> for a file it removed.
\<close>

theorem deletePath_existing_directory_returns_None:
  "os_path_exists [''d'' \<mapsto> Dir, ''d/f'' \<mapsto> File ''x''] ''d''
   \<and> fst (deletePath [''d'' \<mapsto> Dir, ''d/f'' \<mapsto> File ''x''] ''d'') ''d'' = None
   \<and> fst (deletePath [''d'' \<mapsto> Dir, ''d/f'' \<mapsto> File ''x''] ''d'') ''d/f'' = None
   \<and> snd (deletePath [''d'' \<mapsto> Dir, ''d/f'' \<mapsto> File ''x''] ''d'') = None
   \<and> snd (deletePath [''d'' \<mapsto> Dir, ''d/f'' \<mapsto> File ''x''] ''d'') \<noteq> Some True
   \<and> snd (deleteFile [''f'' \<mapsto> File ''x''] ''f'') = Some True"
  by (simp add: deletePath_def deleteFile_def os_path_exists_def lookup_def strip_sep_def rstrip_def
      endswith_def startswith_def rmtree_def os_remove_def)


section \<open>Results about writing a file\<close>

text \<open>
  \<open>writeTo\<close> opens the file before it calls \<open>createPath\<close>. When the directory of the
  file is missing the open fails and \<open>False\<close> is returned with nothing created; when
  \<open>True\<close> is returned the directory was there before the call.
\<close>

lemma writeTo_missing_directory:
  assumes "dirname filename \<noteq> []" and "\<not> os_path_isdir fs (dirname filename)"
  shows "writeTo fs filename file_text encode_codec = Inr (fs, False)"
  using assms by (simp add: writeTo_def open_write_def)

lemma writeTo_never_creates_directory:
  "writeTo fs filename file_text encode_codec = Inr (fs', True) \<Longrightarrow>
     dirname filename = [] \<or> os_path_isdir fs (dirname filename)"
  by (auto simp: writeTo_def open_write_def split: if_splits sum.splits option.splits node.splits)

text \<open>
  Claim C5. For the file \<open>out/a.txt\<close> in a file system without the directory \<open>out\<close>,
  \<open>writeTo\<close> returns \<open>False\<close> and leaves the file system as it was: the directory is
  not created and no line is written.
\<close>

theorem writeTo_missing_directory_returns_False:
  "dirname ''out/a.txt'' = ''out''
   \<and> \<not> os_path_isdir Map.empty ''out''
   \<and> writeTo Map.empty ''out/a.txt'' [''x''] None = Inr (Map.empty, False)"
  by (simp add: writeTo_def open_write_def dirname_def rstrip_def endswith_def startswith_def
      os_path_isdir_def lookup_def)


section \<open>Results about exporting a NetCDF variable\<close>

text \<open>
  The string handed to the raster engine is the access string of the specification with
  one more double quote at its end, whatever the output file and the band.
\<close>

lemma netcdf_input_string_trailing_quote:
  "netcdf_input_string ncFile variable = spec_input_string ncFile variable @ [dquote]"
  by (simp add: netcdf_input_string_def spec_input_string_def)

lemma netcdfExportTif_src:
  "netcdfExportTif fs ncFile variable outputFile band = Inr (fs', call) \<Longrightarrow>
     tr_src call = spec_input_string ncFile variable @ [dquote]"
  unfolding netcdfExportTif_def netcdf_input_string_trailing_quote Let_def
  by (auto split: option.splits if_splits sum.splits)

text \<open>
  Claim C6. For the file \<open>a.nc\<close> and the variable \<open>t\<close>, \<open>netcdfExportTif\<close> passes
  \<open>NETCDF:"a.nc":t"\<close> to \<open>gdal.Translate\<close>: a double quote follows the variable name,
  so the string is not \<open>NETCDF:"a.nc":t\<close>.
\<close>

theorem netcdfExportTif_trailing_quote:
  "netcdfExportTif Map.empty ''a.nc'' ''t'' None None =
     Inr (Map.empty, \<lparr>tr_dest = [], tr_src = ''NETCDF:'' @ [dquote] @ ''a.nc'' @ [dquote] @ '':t'' @ [dquote],
                      tr_format = Some ''MEM'', tr_bandList = None\<rparr>)
   \<and> spec_input_string ''a.nc'' ''t'' = ''NETCDF:'' @ [dquote] @ ''a.nc'' @ [dquote] @ '':t''
   \<and> netcdf_input_string ''a.nc'' ''t'' \<noteq> spec_input_string ''a.nc'' ''t''"
  by (simp add: netcdfExportTif_def netcdf_input_string_def spec_input_string_def)


section \<open>Results about building a grid\<close>

text \<open>
  The file \<open>generatedGrid4326.gpkg\<close> receives the grid in its working coordinate
  system and the file \<open>generatedGrid.gpkg\<close> receives its reprojection to EPSG:4326.
\<close>

lemma createGrid_files:
  "map_of (createGrid reproject cells shapefile resolution useDegree) ''generatedGrid4326.gpkg''
     = Some (working_grid reproject cells shapefile resolution useDegree)
   \<and> map_of (createGrid reproject cells shapefile resolution useDegree) ''generatedGrid.gpkg''
     = Some (to_crs reproject ''EPSG:4326'' (working_grid reproject cells shapefile resolution useDegree))"
  by (simp add: createGrid_def working_grid_def Let_def)

text \<open>
  Claim C3. For a boundary in EPSG:32633 and \<open>useDegree = False\<close> the working
  coordinate system is EPSG:32633. \<open>createGrid\<close> writes the EPSG:4326 reprojection to
  \<open>generatedGrid.gpkg\<close> and the grid in the working system to
  \<open>generatedGrid4326.gpkg\<close>: the two file names are exchanged.
\<close>

theorem createGrid_files_swapped:
  "working_grid (\<lambda>s t g. if s = t then g else g + 1000) (\<lambda>g r. g + r)
       \<lparr>crs = ''EPSG:32633'', geometry = 5::nat\<rparr> (1::nat) False
     = \<lparr>crs = ''EPSG:32633'', geometry = 6\<rparr>
   \<and> map_of (createGrid (\<lambda>s t g. if s = t then g else g + 1000) (\<lambda>g r. g + r)
       \<lparr>crs = ''EPSG:32633'', geometry = 5::nat\<rparr> (1::nat) False) ''generatedGrid.gpkg''
     = Some \<lparr>crs = ''EPSG:4326'', geometry = 1006\<rparr>
   \<and> map_of (createGrid (\<lambda>s t g. if s = t then g else g + 1000) (\<lambda>g r. g + r)
       \<lparr>crs = ''EPSG:32633'', geometry = 5::nat\<rparr> (1::nat) False) ''generatedGrid4326.gpkg''
     = Some \<lparr>crs = ''EPSG:32633'', geometry = 6\<rparr>"
  by (simp add: createGrid_def working_grid_def to_crs_def)


section \<open>Results about MP3 metadata\<close>

text \<open>
  Without a \<open>TIT2\<close> frame, and when the tags cannot be read, the title is the base
  name with every occurrence of \<open>.mp3\<close> deleted.
\<close>

lemma getMp3Metadata_default_title:
  "title (snd (getMp3Metadata fs LoadFails fn imagePath)) = replace (basename fn) ''.mp3'' []"
  "title (snd (getMp3Metadata fs (Audio None) fn imagePath)) = replace (basename fn) ''.mp3'' []"
  "map_of tags ''TIT2'' = None \<Longrightarrow>
     title (snd (getMp3Metadata fs (Audio (Some tags)) fn imagePath)) = replace (basename fn) ''.mp3'' []"
  by (auto simp: getMp3Metadata_def default_metadata_def tag_or_def Let_def
      split: option.splits sum.splits prod.splits)

text \<open>
  Claim C8. For the path \<open>music/a.mp3b.mp3\<close> the title is \<open>ab\<close>, where the base name
  without its extension is \<open>a.mp3b\<close>; for \<open>music/SONG.MP3\<close> the title is \<open>SONG.MP3\<close>,
  where the base name without its extension is \<open>SONG\<close>. Both hold with tags that lack
  \<open>TIT2\<close> and with tags that cannot be read.
\<close>

theorem getMp3Metadata_title_not_base_name:
  "map_of [(''TPE1'', Frame ''me'' [])] ''TIT2'' = None
   \<and> title (snd (getMp3Metadata Map.empty (Audio (Some [(''TPE1'', Frame ''me'' [])])) ''music/a.mp3b.mp3'' None)) = ''ab''
   \<and> title (snd (getMp3Metadata Map.empty LoadFails ''music/a.mp3b.mp3'' None)) = ''ab''
   \<and> getFileBaseName ''music/a.mp3b.mp3'' False = ''a.mp3b''
   \<and> title (snd (getMp3Metadata Map.empty LoadFails ''music/SONG.MP3'' None)) = ''SONG.MP3''
   \<and> getFileBaseName ''music/SONG.MP3'' False = ''SONG''"
  by (simp add: getMp3Metadata_def default_metadata_def tag_or_def basename_def startswith_def
      getFileBaseName_def splitext_def rfind_def)

text \<open>
  The two agree for a base name \<open>s.mp3\<close> in which \<open>s\<close> has a character other than a
  dot and no occurrence of \<open>.mp3\<close>.
\<close>

lemma not_startswith_mp3_append:
  assumes "\<not> startswith (c # cs) ''.mp3''"
  shows "\<not> startswith (c # cs @ ''.mp3'') ''.mp3''"
proof (cases cs)
  case Nil
  then show ?thesis by (simp add: startswith_def)
next
  case (Cons a as)
  show ?thesis
  proof (cases as)
    case Nil
    with Cons show ?thesis by (simp add: startswith_def)
  next
    case (Cons b bs)
    note c2 = this
    show ?thesis
    proof (cases bs)
      case Nil
      with c2 \<open>cs = a # as\<close> show ?thesis by (simp add: startswith_def)
    next
      case (Cons d ds)
      with c2 \<open>cs = a # as\<close> assms show ?thesis by (simp add: startswith_def)
    qed
  qed
qed

lemma replace_mp3_suffix:
  "\<not> occurs ''.mp3'' s \<Longrightarrow> replace (s @ ''.mp3'') ''.mp3'' [] = s"
proof (induction s)
  case Nil
  then show ?case by (simp add: startswith_def)
next
  case (Cons c cs)
  then have a: "\<not> startswith (c # cs) ''.mp3''" and b: "\<not> occurs ''.mp3'' cs"
    by simp_all
  from not_startswith_mp3_append [OF a] Cons.IH [OF b] show ?case
    by simp
qed

lemma basename_no_sep: "CHR ''/'' \<notin> set (basename p)"
  by (auto simp: basename_def dest: set_takeWhileD)

lemma rfind_absent: "c \<notin> set s \<Longrightarrow> rfind s c = - 1"
  by (simp add: rfind_def)

lemma rfind_mp3: "rfind (s @ ''.mp3'') (CHR ''.'') = int (length s)"
  by (simp add: rfind_def)

lemma splitext_mp3:
  assumes "CHR ''/'' \<notin> set s" and "list_ex (\<lambda>c. c \<noteq> CHR ''.'') s"
  shows "splitext (s @ ''.mp3'') = (s, ''.mp3'')"
proof -
  have "rfind (s @ ''.mp3'') (CHR ''/'') = - 1"
    using assms(1) by (intro rfind_absent) simp
  then show ?thesis
    using assms(2) by (simp add: splitext_def rfind_mp3)
qed

lemma default_title_is_base_name:
  assumes "basename fn = s @ ''.mp3''" and "\<not> occurs ''.mp3'' s"
    and "list_ex (\<lambda>c. c \<noteq> CHR ''.'') s"
  shows "replace (basename fn) ''.mp3'' [] = getFileBaseName fn False"
proof -
  have "CHR ''/'' \<notin> set (s @ ''.mp3'')"
    using basename_no_sep [of fn] assms(1) by simp
  then have "CHR ''/'' \<notin> set s" by simp
  then have "splitext (s @ ''.mp3'') = (s, ''.mp3'')"
    using assms(3) by (rule splitext_mp3)
  then show ?thesis
    using assms(1,2) by (simp add: getFileBaseName_def replace_mp3_suffix)
qed


section \<open>Results about the chunks of a download\<close>

lemma chunk_size_int:
  "chunk_size file_size initial_pos n = - ((- (file_size - initial_pos)) div int n)"
proof -
  have "real_of_int (file_size - initial_pos) / real n
      = real_of_int (file_size - initial_pos) / real_of_int (int n)" by simp
  then show ?thesis
    unfolding chunk_size_def by (simp only: ceiling_divide_eq_div)
qed

text \<open>
  Claim C4. For a file of 6 bytes, no resume offset and the default 5 connections, the
  chunk size is 2 and the chunks are \<open>(0, 1)\<close>, \<open>(2, 3)\<close>, \<open>(4, 5)\<close>, \<open>(6, 5)\<close>,
  \<open>(8, 5)\<close>: the last chunk does not start where the one before it ends, its end is
  before its start, and its worker asks for \<open>bytes=8-5\<close>.
\<close>

theorem chunks_small_file_inverted_range:
  "chunks 6 0 5 = [(0, 1), (2, 3), (4, 5), (6, 5), (8, 5)]
   \<and> fst (chunks 6 0 5 ! 4) \<noteq> snd (chunks 6 0 5 ! 3) + 1
   \<and> snd (chunks 6 0 5 ! 4) < fst (chunks 6 0 5 ! 4)
   \<and> range_header (fst (chunks 6 0 5 ! 4)) (snd (chunks 6 0 5 ! 4)) = ''bytes=8-5''"
  by (simp add: chunks_def chunk_size_int upt_rec range_header_def str_int_def str_nat.simps)

text \<open>
  The chunks are as the claim describes exactly when the last one starts inside the
  file, which holds when more than \<open>(n - 1)\<^sup>2\<close> bytes remain.
\<close>

lemma chunk_size_bounds:
  assumes "0 < n"
  shows "file_size - initial_pos \<le> int n * chunk_size file_size initial_pos n"
    and "int n * chunk_size file_size initial_pos n < file_size - initial_pos + int n"
proof -
  let ?r = "file_size - initial_pos"
  have n: "0 < int n" using assms by simp
  have eq: "- ?r = int n * ((- ?r) div int n) + (- ?r) mod int n"
    by simp
  have m: "0 \<le> (- ?r) mod int n" "(- ?r) mod int n < int n"
    using n by simp_all
  have c: "int n * chunk_size file_size initial_pos n = - (int n * ((- ?r) div int n))"
    by (simp add: chunk_size_int)
  show "?r \<le> int n * chunk_size file_size initial_pos n"
    using eq m c by linarith
  show "int n * chunk_size file_size initial_pos n < ?r + int n"
    using eq m c by linarith
qed

lemma chunks_nth:
  "i < n \<Longrightarrow> chunks file_size initial_pos n ! i =
     (initial_pos + int i * chunk_size file_size initial_pos n,
      min (initial_pos + int i * chunk_size file_size initial_pos n
             + chunk_size file_size initial_pos n - 1) (file_size - 1))"
  by (simp add: chunks_def Let_def)

lemma chunks_cover:
  assumes pos: "initial_pos < file_size" and n: "0 < n"
    and inside: "int (n - 1) * chunk_size file_size initial_pos n < file_size - initial_pos"
  shows "length (chunks file_size initial_pos n) = n"
    and "fst (chunks file_size initial_pos n ! 0) = initial_pos"
    and "\<forall>i. Suc i < n \<longrightarrow>
           fst (chunks file_size initial_pos n ! Suc i) = snd (chunks file_size initial_pos n ! i) + 1"
    and "snd (chunks file_size initial_pos n ! (n - 1)) = file_size - 1"
    and "\<forall>i < n. fst (chunks file_size initial_pos n ! i) \<le> snd (chunks file_size initial_pos n ! i)"
    and "\<forall>i. Suc i < n \<longrightarrow>
           snd (chunks file_size initial_pos n ! i) - fst (chunks file_size initial_pos n ! i) + 1
             = chunk_size file_size initial_pos n"
proof -
  let ?c = "chunk_size file_size initial_pos n"
  let ?r = "file_size - initial_pos"
  have lo: "?r \<le> int n * ?c" and hi: "int n * ?c < ?r + int n"
    using chunk_size_bounds [OF n] by simp_all
  have cpos: "0 < ?c"
  proof (rule ccontr)
    assume "\<not> 0 < ?c"
    then have "int n * ?c \<le> 0" using n by (simp add: mult_le_0_iff)
    with lo pos show False by linarith
  qed
  have step: "int (Suc i) * ?c \<le> int (n - 1) * ?c" if "Suc i < n" for i
  proof -
    have "int (Suc i) \<le> int (n - 1)" using that by simp
    then show ?thesis using cpos by (intro mult_right_mono) simp_all
  qed
  have full: "initial_pos + int i * ?c + ?c - 1 < file_size - 1" if "Suc i < n" for i
  proof -
    have "int i * ?c + ?c = int (Suc i) * ?c" by (simp add: algebra_simps)
    with step [OF that] inside show ?thesis by linarith
  qed
  have lastc: "int (n - 1) * ?c + ?c = int n * ?c"
    using n by (cases n) (simp_all add: algebra_simps)
  show "length (chunks file_size initial_pos n) = n"
    by (simp add: chunks_def)
  show "fst (chunks file_size initial_pos n ! 0) = initial_pos"
    using n by (simp add: chunks_nth)
  show "\<forall>i. Suc i < n \<longrightarrow>
           fst (chunks file_size initial_pos n ! Suc i) = snd (chunks file_size initial_pos n ! i) + 1"
  proof (intro allI impI)
    fix i assume i: "Suc i < n"
    then have "i < n" by simp
    with i full [OF i] show "fst (chunks file_size initial_pos n ! Suc i)
        = snd (chunks file_size initial_pos n ! i) + 1"
      by (simp add: chunks_nth algebra_simps)
  qed
  show "snd (chunks file_size initial_pos n ! (n - 1)) = file_size - 1"
    using n lo lastc by (simp add: chunks_nth)
  show "\<forall>i < n. fst (chunks file_size initial_pos n ! i) \<le> snd (chunks file_size initial_pos n ! i)"
  proof (intro allI impI)
    fix i assume i: "i < n"
    have "int i * ?c \<le> int (n - 1) * ?c"
      using i cpos by (intro mult_right_mono) simp_all
    with inside have "initial_pos + int i * ?c < file_size" by linarith
    with cpos i show "fst (chunks file_size initial_pos n ! i) \<le> snd (chunks file_size initial_pos n ! i)"
      by (simp add: chunks_nth)
  qed
  show "\<forall>i. Suc i < n \<longrightarrow>
           snd (chunks file_size initial_pos n ! i) - fst (chunks file_size initial_pos n ! i) + 1
             = chunk_size file_size initial_pos n"
  proof (intro allI impI)
    fix i assume i: "Suc i < n"
    then have "i < n" by simp
    with full [OF i] show "snd (chunks file_size initial_pos n ! i) - fst (chunks file_size initial_pos n ! i) + 1 = ?c"
      by (simp add: chunks_nth)
  qed
qed

lemma chunks_last_inverted:
  assumes n: "0 < n"
    and outside: "\<not> int (n - 1) * chunk_size file_size initial_pos n < file_size - initial_pos"
  shows "snd (chunks file_size initial_pos n ! (n - 1)) < fst (chunks file_size initial_pos n ! (n - 1))"
  using n outside by (simp add: chunks_nth)

lemma chunks_inside_if_large:
  assumes n: "0 < n" and large: "(int n - 1) * (int n - 1) < file_size - initial_pos"
  shows "int (n - 1) * chunk_size file_size initial_pos n < file_size - initial_pos"
proof -
  let ?c = "chunk_size file_size initial_pos n"
  let ?r = "file_size - initial_pos"
  let ?m = "int n - 1"
  have m: "int (n - 1) = ?m" using n by simp
  have hi: "int n * ?c \<le> ?r + ?m"
    using chunk_size_bounds(2) [OF n, of file_size initial_pos] by simp
  have m0: "0 \<le> ?m" using n by simp
  have "?m * (int n * ?c) \<le> ?m * (?r + ?m)"
    using hi m0 by (rule mult_left_mono)
  also have "\<dots> = ?m * ?r + ?m * ?m" by (simp add: algebra_simps)
  also have "\<dots> < ?m * ?r + ?r" using large by simp
  also have "\<dots> = int n * ?r" by (simp add: algebra_simps)
  finally have "int n * (?m * ?c) < int n * ?r" by (simp add: algebra_simps)
  then have "?m * ?c < ?r" using n by simp
  with m show ?thesis by simp
qed


section \<open>Results about the file a download writes\<close>
























end
